theory Spec2Isabelle
  imports Main "HOL-Library.Word"
begin

section \<open>Data model of the delivery manager (delivery\_manager.go)\<close>

text \<open>
  \<open>DeliveryStatus\<close> is a Go string type with three named constants; a caller can put any
  string into the field, so the model keeps it a string.
\<close>

type_synonym DeliveryStatus = string

definition DeliveryStatusPending :: DeliveryStatus where
  "DeliveryStatusPending = ''pending''"

definition DeliveryStatusDelivered :: DeliveryStatus where
  "DeliveryStatusDelivered = ''delivered''"

definition DeliveryStatusFailed :: DeliveryStatus where
  "DeliveryStatusFailed = ''failed''"

text \<open>
  Go's \<open>int\<close> is a 64-bit two's complement integer on the 64-bit targets the gateway is
  built for: \<open>++\<close> wraps, and \<open><\<close>, \<open>>=\<close> compare signed values
  (\<open>word_sless\<close>, \<open>word_sle\<close>). A \<open>time.Time\<close> is the clock reading in nanoseconds, a
  \<open>time.Duration\<close> a number of nanoseconds (an int64).
\<close>

type_synonym go_int = "64 word"

record DeliveryEvent =
  ID :: string
  UserID :: string
  Token :: string
  EventType :: string
  Payload :: "(string \<times> string) list"
  JsonData :: string
  FilePath :: string
  CreatedAt :: int
  AttemptCount :: go_int
  Status :: DeliveryStatus
  LastError :: string

record DeliveryResult =
  Channel :: string
  Success :: bool
  Error :: string
  Duration :: int
  Timestamp :: int

text \<open>
  The pending map holds pointers (\<open>map[string]*DeliveryEvent\<close>): the goroutine running a
  fan-out, the map and the HTTP handlers all reach the same object. A pointer is an
  address \<open>ref\<close> into a store of events; \<open>mu\<close> is not a field of the model, each locked
  section being one step.
\<close>

type_synonym ref = nat

record DeliveryManager =
  pendingEvents :: "string \<rightharpoonup> ref"
  maxRetries :: go_int
  retryBackoff :: int
  timeout :: int

record world =
  heap :: "ref \<Rightarrow> DeliveryEvent"
  dm :: DeliveryManager

text \<open>
  The manager that \<open>InitDeliveryManager\<close> builds. It also starts \<open>processRetries\<close>,
  which calls \<open>retryFailedEvents\<close> at every tick of a ticker of period \<open>retryBackoff\<close>
  for the life of the process; one such call is one sweep.
\<close>

definition InitDeliveryManager :: DeliveryManager where
  "InitDeliveryManager =
     \<lparr>pendingEvents = Map.empty, maxRetries = 3,
      retryBackoff = 2 * 1000000000, timeout = 10 * 1000000000\<rparr>"

section \<open>Collaborators of one fan-out\<close>

text \<open>
  What a fan-out reads from outside the manager: the webhook URL resolver, the global
  webhook flag, the broker switch, the HTTP client registry, the user-info cache, and the
  outcome of every outbound call (\<open>None\<close> is Go's \<open>nil\<close> error). \<open>ctxDone\<close> says whether
  the shared context had expired when the broker adapter looked at it; \<open>startAt\<close> and
  \<open>since\<close> are the readings of \<open>time.Now()\<close> and \<open>time.Since(start)\<close> in the adapter of
  the named channel.
\<close>

datatype request =
    FormPost string "(string \<times> string) list"
  | FilePost string "(string \<times> string) list" string string
  | Publish string string string string

record env =
  getUserWebhookUrl :: "string \<Rightarrow> string"
  globalWebhook :: string
  rabbitEnabled :: bool
  GetHTTPClient :: "string \<Rightarrow> nat option"
  userinfocache :: "string \<Rightarrow> string option"
  send :: "request \<Rightarrow> string option"
  ctxDone :: bool
  startAt :: "string \<Rightarrow> int"
  since :: "string \<Rightarrow> int"

text \<open>\<open>Duration.Milliseconds\<close>: integer division by \<open>1e6\<close>, truncating towards zero.\<close>

definition Milliseconds :: "int \<Rightarrow> int" where
  "Milliseconds d = sgn d * (\<bar>d\<bar> div 1000000)"

definition instanceNameOf :: "env \<Rightarrow> DeliveryEvent \<Rightarrow> string" where
  "instanceNameOf e event =
     (case userinfocache e (Token event) of Some name \<Rightarrow> name | None \<Rightarrow> '''')"

section \<open>Channel adapters\<close>

text \<open>
  Each adapter returns its \<open>DeliveryResult\<close> together with the outbound calls it made, in
  order, so that "no network call" is a statement about the second component.
\<close>

definition deliverToUserWebhook ::
  "env \<Rightarrow> DeliveryEvent \<Rightarrow> string \<Rightarrow> DeliveryResult \<times> request list" where
  "deliverToUserWebhook e event webhookURL =
     (let start = startAt e ''webhook'';
          result = \<lparr>Channel = ''webhook'', Success = False, Error = '''', Duration = 0,
                    Timestamp = start\<rparr>
      in case GetHTTPClient e (UserID event) of
           None \<Rightarrow>
             (result\<lparr>Success := False, Error := ''HTTP client not found for user'',
                     Duration := Milliseconds (since e ''webhook'')\<rparr>, [])
         | Some client \<Rightarrow>
             (let data = [(''jsonData'', JsonData event), (''token'', Token event),
                          (''instanceName'', instanceNameOf e event)];
                  req = (if FilePath event = '''' then FormPost webhookURL data
                         else FilePost webhookURL data (UserID event) (FilePath event));
                  err = send e req;
                  result1 = result\<lparr>Duration := Milliseconds (since e ''webhook'')\<rparr>
              in case err of
                   Some msg \<Rightarrow> (result1\<lparr>Success := False, Error := msg\<rparr>, [req])
                 | None \<Rightarrow> (result1\<lparr>Success := True\<rparr>, [req])))"

definition deliverToGlobalWebhook ::
  "env \<Rightarrow> DeliveryEvent \<Rightarrow> DeliveryResult \<times> request list" where
  "deliverToGlobalWebhook e event =
     (let start = startAt e ''global_webhook'';
          result = \<lparr>Channel = ''global_webhook'', Success = False, Error = '''',
                    Duration = 0, Timestamp = start\<rparr>;
          globalData = [(''jsonData'', JsonData event), (''token'', Token event),
                        (''userID'', UserID event),
                        (''instanceName'', instanceNameOf e event)]
      in case GetHTTPClient e (UserID event) of
           Some client \<Rightarrow>
             (let req = FormPost (globalWebhook e) globalData;
                  err = send e req;
                  result1 = result\<lparr>Duration := Milliseconds (since e ''global_webhook'')\<rparr>
              in case err of
                   Some msg \<Rightarrow> (result1\<lparr>Success := False, Error := msg\<rparr>, [req])
                 | None \<Rightarrow> (result1\<lparr>Success := True\<rparr>, [req]))
         | None \<Rightarrow>
             (result\<lparr>Success := False, Error := ''HTTP client not available'',
                     Duration := Milliseconds (since e ''global_webhook'')\<rparr>, []))"

definition deliverToRabbitMQ ::
  "env \<Rightarrow> DeliveryEvent \<Rightarrow> DeliveryResult \<times> request list" where
  "deliverToRabbitMQ e event =
     (let start = startAt e ''rabbitmq'';
          result = \<lparr>Channel = ''rabbitmq'', Success = False, Error = '''', Duration = 0,
                    Timestamp = start\<rparr>
      in if ctxDone e then
           (result\<lparr>Success := False, Error := ''Context timeout'',
                   Duration := Milliseconds (since e ''rabbitmq'')\<rparr>, [])
         else
           (let req = Publish (JsonData event) (EventType event) (UserID event) (Token event);
                err = send e req;
                result1 = result\<lparr>Duration := Milliseconds (since e ''rabbitmq'')\<rparr>
            in case err of
                 Some msg \<Rightarrow> (result1\<lparr>Success := False, Error := msg\<rparr>, [req])
               | None \<Rightarrow> (result1\<lparr>Success := True\<rparr>, [req])))"

section \<open>Fan-out: \<open>processDelivery\<close>\<close>

text \<open>
  The three \<open>if\<close> blocks that start a goroutine per enabled channel. The goroutines send
  into a buffered channel in the order they finish; the loop that drains it only forms a
  conjunction of the success flags and a count, so the model lists the results in the
  order of the source text.
\<close>

definition dispatch :: "env \<Rightarrow> DeliveryEvent \<Rightarrow> (DeliveryResult \<times> request list) list" where
  "dispatch e event =
     (let webhookURL = getUserWebhookUrl e (Token event)
      in (if webhookURL \<noteq> '''' then [deliverToUserWebhook e event webhookURL] else []) @
         (if globalWebhook e \<noteq> '''' then [deliverToGlobalWebhook e event] else []) @
         (if rabbitEnabled e then [deliverToRabbitMQ e event] else []))"

text \<open>The loop \<open>for result := range results\<close>, on \<open>(deliveryResults, allSuccess)\<close>.\<close>

fun collect ::
  "DeliveryResult list \<Rightarrow> DeliveryResult list \<times> bool \<Rightarrow> DeliveryResult list \<times> bool" where
  "collect [] acc = acc"
| "collect (result # rest) (deliveryResults, allSuccess) =
     collect rest (deliveryResults @ [result],
                   if \<not> Success result then False else allSuccess)"

definition aggregate :: "env \<Rightarrow> DeliveryEvent \<Rightarrow> DeliveryResult list \<times> bool" where
  "aggregate e event = collect (map fst (dispatch e event)) ([], True)"

text \<open>The section of \<open>processDelivery\<close> between \<open>dm.mu.Lock()\<close> and \<open>dm.mu.Unlock()\<close>.\<close>

definition updateStatus :: "bool \<Rightarrow> ref \<Rightarrow> world \<Rightarrow> world" where
  "updateStatus allSuccess p w =
     (let event = heap w p; d = dm w
      in if allSuccess then
           w\<lparr>heap := (heap w)(p := event\<lparr>Status := DeliveryStatusDelivered\<rparr>),
             dm := d\<lparr>pendingEvents := (pendingEvents d)(ID event := None)\<rparr>\<rparr>
         else
           (let event1 = event\<lparr>AttemptCount := AttemptCount event + 1\<rparr>
            in if word_sle (maxRetries d) (AttemptCount event1) then
                 w\<lparr>heap := (heap w)(p := event1\<lparr>Status := DeliveryStatusFailed,
                                                LastError := ''Max retries exceeded''\<rparr>),
                   dm := d\<lparr>pendingEvents := (pendingEvents d)(ID event := None)\<rparr>\<rparr>
               else w\<lparr>heap := (heap w)(p := event1)\<rparr>))"

definition processDelivery :: "env \<Rightarrow> ref \<Rightarrow> world \<Rightarrow> world" where
  "processDelivery e p w = updateStatus (snd (aggregate e (heap w p))) p w"

section \<open>Submission: \<open>DeliverEvent\<close>\<close>

text \<open>\<open>fmt.Sprintf("%d", n)\<close>: the decimal digits, with a minus sign below zero.\<close>

fun decNat :: "nat \<Rightarrow> string" where
  "decNat n =
     (if n < 10 then [char_of (48 + n)]
      else decNat (n div 10) @ [char_of (48 + n mod 10)])"

declare decNat.simps [simp del]

definition decInt :: "int \<Rightarrow> string" where
  "decInt i = (if i < 0 then CHR ''-'' # decNat (nat (- i)) else decNat (nat i))"

text \<open>
  The id under which a call stores its event: the caller's, or \<open>UserID_nanos\<close> when the
  caller left it empty (\<open>nanos\<close> is the second reading of the clock, \<open>UnixNano\<close>).
\<close>

definition assignedID :: "DeliveryEvent \<Rightarrow> int \<Rightarrow> string" where
  "assignedID event nanos =
     (if ID event = '''' then UserID event @ ''_'' @ decInt nanos else ID event)"

text \<open>
  \<open>DeliverEvent\<close> mutates the caller's event, stores the pointer and ends with
  \<open>go dm.processDelivery(event)\<close>: the second component lists the fan-outs it starts.
\<close>

definition DeliverEvent :: "int \<Rightarrow> int \<Rightarrow> ref \<Rightarrow> world \<Rightarrow> world \<times> ref list" where
  "DeliverEvent now nanos p w =
     (let event = (heap w p)\<lparr>CreatedAt := now, Status := DeliveryStatusPending\<rparr>;
          event1 = event\<lparr>ID := assignedID event nanos\<rparr>;
          d = dm w
      in (w\<lparr>heap := (heap w)(p := event1),
            dm := d\<lparr>pendingEvents := (pendingEvents d)(ID event1 \<mapsto> p)\<rparr>\<rparr>, [p]))"

section \<open>Queries\<close>

definition GetPendingEventsCount :: "DeliveryManager \<Rightarrow> int" where
  "GetPendingEventsCount d = int (card (dom (pendingEvents d)))"

text \<open>
  Go returns \<open>(event, true)\<close> for a key of the map and \<open>(nil, false)\<close> otherwise; the map
  never holds \<open>nil\<close>, so the pair is \<open>Some event\<close> or \<open>None\<close>.
\<close>

definition GetEventStatus :: "DeliveryManager \<Rightarrow> string \<Rightarrow> ref option" where
  "GetEventStatus d eventID = pendingEvents d eventID"

section \<open>Retry sweep: \<open>retryFailedEvents\<close>\<close>

text \<open>
  Go ranges over a map in an order that it chooses afresh each time. A loop over the map
  takes that order as a list of keys; \<open>iterationOrder\<close> says the list enumerates the keys
  of the map, each once.
\<close>

fun rangeMap :: "('k \<rightharpoonup> 'v) \<Rightarrow> 'k list \<Rightarrow> ('k \<times> 'v) list" where
  "rangeMap m [] = []"
| "rangeMap m (k # ks) =
     (case m k of Some v \<Rightarrow> (k, v) # rangeMap m ks | None \<Rightarrow> rangeMap m ks)"

definition iterationOrder :: "('k \<rightharpoonup> 'v) \<Rightarrow> 'k list \<Rightarrow> bool" where
  "iterationOrder m ks \<longleftrightarrow> distinct ks \<and> set ks = dom m"

text \<open>\<open>time.Since(t)\<close> at clock reading \<open>now\<close>; \<open>Time.Sub\<close> saturates at the int64 range.\<close>

definition Since :: "int \<Rightarrow> int \<Rightarrow> int" where
  "Since now t =
     (let d = now - t
      in if d > 2 ^ 63 - 1 then 2 ^ 63 - 1 else if d < - (2 ^ 63) then - (2 ^ 63) else d)"

definition eligible :: "world \<Rightarrow> int \<Rightarrow> ref \<Rightarrow> bool" where
  "eligible w now event \<longleftrightarrow>
     Status (heap w event) = DeliveryStatusPending \<and>
     word_sless (AttemptCount (heap w event)) (maxRetries (dm w)) \<and>
     Since now (CreatedAt (heap w event)) > retryBackoff (dm w)"

text \<open>
  \<open>clock k\<close> is the reading of the clock when the loop looks at the entry of key \<open>k\<close>. The
  result is \<open>eventsToRetry\<close>: the second loop starts \<open>go dm.processDelivery(event)\<close> for
  each of its elements and changes nothing else.
\<close>

definition retryFailedEvents :: "(string \<Rightarrow> int) \<Rightarrow> string list \<Rightarrow> world \<Rightarrow> ref list" where
  "retryFailedEvents clock ks w =
     map snd (filter (\<lambda>(k, event). eligible w (clock k) event)
                     (rangeMap (pendingEvents (dm w)) ks))"

section \<open>Administrative handlers\<close>

text \<open>
  \<open>strconv.Atoi\<close> of the Go standard library: an optional sign, then one or more decimal
  digits, and a value in the range of \<open>int\<close>; anything else is an error (\<open>None\<close>).
\<close>

definition digitVal :: "char \<Rightarrow> nat option" where
  "digitVal c =
     (let n = (of_char c :: nat) in if 48 \<le> n \<and> n \<le> 57 then Some (n - 48) else None)"

fun parseDigits :: "string \<Rightarrow> nat \<Rightarrow> nat option" where
  "parseDigits [] acc = Some acc"
| "parseDigits (c # cs) acc =
     (case digitVal c of None \<Rightarrow> None | Some v \<Rightarrow> parseDigits cs (acc * 10 + v))"

definition Atoi :: "string \<Rightarrow> int option" where
  "Atoi s =
     (let (neg, ds) =
            (case s of
               [] \<Rightarrow> (False, s)
             | c # cs \<Rightarrow>
                 if c = CHR ''-'' then (True, cs)
                 else if c = CHR ''+'' then (False, cs) else (False, s))
      in if ds = [] then None
         else case parseDigits ds 0 of
                None \<Rightarrow> None
              | Some n \<Rightarrow>
                  (let v = (if neg then - int n else int n)
                   in if - (2 ^ 63) \<le> v \<and> v < 2 ^ 63 then Some v else None))"

text \<open>
  A handler answers through \<open>s.Respond\<close> with a status code and a message, or writes a
  JSON body with status 200. \<open>marshalErr\<close> is the error of \<open>json.Marshal\<close> (\<open>None\<close> is
  \<open>nil\<close>). The global \<open>deliveryManager\<close> is \<open>None\<close> while it is \<open>nil\<close>.
\<close>

record metrics =
  total_pending :: int
  filtered_count :: int
  shown_count :: int
  events :: "DeliveryEvent list"

datatype response =
    Respond nat string
  | WriteEvent DeliveryEvent
  | WriteMetrics metrics

definition EventStatus ::
  "string option \<Rightarrow> string \<Rightarrow> (ref \<Rightarrow> DeliveryEvent) \<Rightarrow> DeliveryManager option \<Rightarrow> response" where
  "EventStatus marshalErr eventID h g =
     (case g of
        None \<Rightarrow> Respond 503 ''Delivery manager not initialized''
      | Some d \<Rightarrow>
          if eventID = '''' then Respond 400 ''Event ID is required''
          else (case GetEventStatus d eventID of
                  None \<Rightarrow> Respond 404 ''Event not found or already completed''
                | Some event \<Rightarrow>
                    (case marshalErr of
                       Some err \<Rightarrow> Respond 500 err
                     | None \<Rightarrow> WriteEvent (h event))))"

text \<open>
  The loop of \<open>DeliveryMetrics\<close> on \<open>(events, count)\<close>. \<open>count\<close> is bounded by the number
  of entries of the map, itself a Go \<open>int\<close>, so it does not wrap.
\<close>

fun metricsLoop ::
  "string \<Rightarrow> int \<Rightarrow> (ref \<Rightarrow> DeliveryEvent) \<Rightarrow> ref list \<Rightarrow> ref list \<times> int \<Rightarrow> ref list \<times> int" where
  "metricsLoop userID limit h [] acc = acc"
| "metricsLoop userID limit h (event # rest) (evs, count) =
     (if userID = '''' \<or> UserID (h event) = userID then
        metricsLoop userID limit h rest
          (if count < limit then evs @ [event] else evs, count + 1)
      else metricsLoop userID limit h rest (evs, count))"

definition queryLimit :: "string \<Rightarrow> int" where
  "queryLimit limitStr =
     (let limit = 50
      in if limitStr \<noteq> '''' then
           (case Atoi limitStr of
              Some parsedLimit \<Rightarrow> if parsedLimit > 0 then parsedLimit else limit
            | None \<Rightarrow> limit)
         else limit)"

definition DeliveryMetrics ::
  "string option \<Rightarrow> string list \<Rightarrow> string \<Rightarrow> string \<Rightarrow> (ref \<Rightarrow> DeliveryEvent) \<Rightarrow>
     DeliveryManager option \<Rightarrow> response" where
  "DeliveryMetrics marshalErr ks userID limitStr h g =
     (case g of
        None \<Rightarrow> Respond 503 ''Delivery manager not initialized''
      | Some d \<Rightarrow>
          (let limit = queryLimit limitStr;
               (evs, count) =
                  metricsLoop userID limit h (map snd (rangeMap (pendingEvents d) ks)) ([], 0);
               m = \<lparr>total_pending = int (card (dom (pendingEvents d))),
                    filtered_count = count,
                    shown_count = int (length evs),
                    events = map h evs\<rparr>
           in case marshalErr of
                Some err \<Rightarrow> Respond 500 err
              | None \<Rightarrow> WriteMetrics m))"

text \<open>
  \<open>ForceRetry\<close> returns its answer, the store after its writes to the event, and the
  fan-outs it starts.
\<close>

definition ForceRetry ::
  "(string \<Rightarrow> int) \<Rightarrow> string list \<Rightarrow> string \<Rightarrow> (ref \<Rightarrow> DeliveryEvent) \<Rightarrow>
     DeliveryManager option \<Rightarrow> response \<times> (ref \<Rightarrow> DeliveryEvent) \<times> ref list" where
  "ForceRetry clock ks eventID h g =
     (case g of
        None \<Rightarrow> (Respond 503 ''Delivery manager not initialized'', h, [])
      | Some d \<Rightarrow>
          if eventID = '''' then
            (Respond 200 ''Retry triggered for all pending events'', h,
             retryFailedEvents clock ks \<lparr>heap = h, dm = d\<rparr>)
          else (case GetEventStatus d eventID of
                  None \<Rightarrow> (Respond 404 ''Event not found'', h, [])
                | Some event \<Rightarrow>
                    (Respond 200 (''Retry triggered for event: '' @ eventID),
                     h(event := (h event)\<lparr>AttemptCount := 0,
                                           Status := DeliveryStatusPending\<rparr>),
                     [event])))"

section \<open>Runs of the manager\<close>

text \<open>
  The goroutines meet at the lock only. A state of the running manager is the world
  together with the fan-outs that have been started and have not reached their locked
  section yet, each given by the event it was started for. The steps: a producer fills
  an event and calls \<open>DeliverEvent\<close>; the ticker of \<open>processRetries\<close> fires and one
  sweep runs; the force-retry handler runs; one of the started fan-outs finishes. The
  answers of the collaborators are a parameter of the finishing step, so it does not
  matter that the model reads the request fields of the event at the end of the fan-out
  rather than at its start.
\<close>

record system =
  state :: world
  started :: "ref list"

datatype action =
    Submit ref DeliveryEvent int int
  | Tick "string \<Rightarrow> int" "string list"
  | Force "string \<Rightarrow> int" "string list" string
  | Finish nat env

fun step :: "action \<Rightarrow> system \<Rightarrow> system" where
  "step (Submit p event now nanos) s =
     (let (w, new) =
            DeliverEvent now nanos p ((state s)\<lparr>heap := (heap (state s))(p := event)\<rparr>)
      in \<lparr>state = w, started = started s @ new\<rparr>)"
| "step (Tick clock ks) s =
     s\<lparr>started := started s @ retryFailedEvents clock ks (state s)\<rparr>"
| "step (Force clock ks eventID) s =
     (let (resp, h, new) =
            ForceRetry clock ks eventID (heap (state s)) (Some (dm (state s)))
      in \<lparr>state = (state s)\<lparr>heap := h\<rparr>, started = started s @ new\<rparr>)"
| "step (Finish i e) s =
     (if i < length (started s) then
        \<lparr>state = processDelivery e (started s ! i) (state s),
         started = take i (started s) @ drop (Suc i) (started s)\<rparr>
      else s)"

text \<open>Whether a step stores an event under the id \<open>i\<close>.\<close>

fun storesUnder :: "action \<Rightarrow> string \<Rightarrow> bool" where
  "storesUnder (Submit p event now nanos) i \<longleftrightarrow> assignedID event nanos = i"
| "storesUnder (Tick clock ks) i \<longleftrightarrow> False"
| "storesUnder (Force clock ks eventID) i \<longleftrightarrow> False"
| "storesUnder (Finish n e) i \<longleftrightarrow> False"

definition run :: "action list \<Rightarrow> system \<Rightarrow> system" where
  "run acts s = fold step acts s"

section \<open>The enabled channels, in the words of the specification\<close>

text \<open>
  Section 4.1, step 1 of the specification: the user webhook is enabled iff a non-empty
  destination URL resolves for the token, the global webhook iff a non-empty global URL
  is configured, the broker iff broker publishing is enabled. The definition is the
  specification's; \<open>dispatch\<close> above is the code's, and the two are compared below.
\<close>

definition enabledChannels :: "env \<Rightarrow> DeliveryEvent \<Rightarrow> string list" where
  "enabledChannels e event =
     (if getUserWebhookUrl e (Token event) \<noteq> '''' then [''webhook''] else []) @
     (if globalWebhook e \<noteq> '''' then [''global_webhook''] else []) @
     (if rabbitEnabled e then [''rabbitmq''] else [])"

section \<open>Example configurations\<close>

text \<open>
  A tenant \<open>t1\<close> with one event held at address 0 and stored under its id, in a manager
  with the defaults of \<open>InitDeliveryManager\<close>; and the collaborators as four deployments
  see them: no channel configured, user webhook and broker both answering, the broker
  down, and no HTTP client registered for the tenant.
\<close>

definition event1 :: DeliveryEvent where
  "event1 =
     \<lparr>ID = ''evt-1'', UserID = ''t1'', Token = ''tok1'', EventType = ''Message'',
      Payload = [], JsonData = ''{}'', FilePath = '''', CreatedAt = 0, AttemptCount = 0,
      Status = DeliveryStatusPending, LastError = ''''\<rparr>"

definition world1 :: world where
  "world1 =
     \<lparr>heap = (\<lambda>p. event1),
      dm = InitDeliveryManager\<lparr>pendingEvents := [''evt-1'' \<mapsto> 0]\<rparr>\<rparr>"

definition envNone :: env where
  "envNone =
     \<lparr>getUserWebhookUrl = (\<lambda>token. ''''), globalWebhook = '''', rabbitEnabled = False,
      GetHTTPClient = (\<lambda>userID. Some 0), userinfocache = (\<lambda>token. None),
      send = (\<lambda>req. None), ctxDone = False, startAt = (\<lambda>c. 0), since = (\<lambda>c. 0)\<rparr>"

definition envBothOk :: env where
  "envBothOk =
     envNone\<lparr>getUserWebhookUrl := (\<lambda>token. ''http://hook.example/t1''),
             rabbitEnabled := True\<rparr>"

definition envBrokerDown :: env where
  "envBrokerDown =
     envBothOk\<lparr>send := (\<lambda>req. case req of Publish j t u k \<Rightarrow> Some ''broker down''
                                  | _ \<Rightarrow> None)\<rparr>"

definition envNoClient :: env where
  "envNoClient =
     envNone\<lparr>getUserWebhookUrl := (\<lambda>token. ''http://hook.example/t1''),
             globalWebhook := ''http://global.example/hook'',
             GetHTTPClient := (\<lambda>userID. None)\<rparr>"

text \<open>The same event after two failed cycles.\<close>

definition world2 :: world where
  "world2 = world1\<lparr>heap := (\<lambda>p. event1\<lparr>AttemptCount := 2\<rparr>)\<rparr>"

text \<open>The world after the third failed cycle of that event.\<close>

definition worldFailed :: world where
  "worldFailed = processDelivery envBrokerDown 0 world2"

text \<open>A fresh manager, and an event that the producer has built without an id.\<close>

definition world0 :: world where
  "world0 = \<lparr>heap = (\<lambda>p. event1\<lparr>ID := ''''\<rparr>), dm = InitDeliveryManager\<rparr>"

text \<open>
  Three pending events ten seconds after the first was created: \<open>a\<close> has failed once,
  \<open>b\<close> is one second old, \<open>c\<close> belongs to tenant \<open>t2\<close> and carries three attempts.
\<close>

definition world3 :: world where
  "world3 =
     \<lparr>heap = (\<lambda>p. if p = 0 then event1\<lparr>ID := ''a'', AttemptCount := 1\<rparr>
                  else if p = 1 then event1\<lparr>ID := ''b'', CreatedAt := 9000000000\<rparr>
                  else event1\<lparr>ID := ''c'', UserID := ''t2'', AttemptCount := 3\<rparr>),
      dm = InitDeliveryManager
             \<lparr>pendingEvents := [''a'' \<mapsto> 0, ''b'' \<mapsto> 1, ''c'' \<mapsto> 2]\<rparr>\<rparr>"

text \<open>
  A producer has built a second event at address 1 with the id of the stored one, a
  status and a creation time of its own.
\<close>

definition world4 :: world where
  "world4 = world2\<lparr>heap := (heap world2)
               (1 := event1\<lparr>CreatedAt := 77, Status := DeliveryStatusDelivered\<rparr>)\<rparr>"

text \<open>
  What may follow the last cycle of that event: a fan-out of the same event that was
  still under way, a forced retry of its id, the submission of another event, a sweep,
  the fan-out of the other event.
\<close>

definition actionsAfter :: "action list" where
  "actionsAfter =
     [Finish 0 envBothOk,
      Force (\<lambda>k. 0) [] ''evt-1'',
      Submit 1 (event1\<lparr>ID := ''evt-2''\<rparr>) 7 8,
      Tick (\<lambda>k. 10000000000) [''evt-2''],
      Finish 1 envBrokerDown]"

text \<open>
  A run with slow channels: the event is submitted at time 0, each fan-out takes five
  seconds and fails at the broker, and the sweep runs every two seconds from 2.5 s on.
  Sweeps start fan-outs 2 and 3 before fan-out 1 has finished, fan-out 4 before 2 has,
  fan-out 5 before 3 has.
\<close>

definition system0 :: system where
  "system0 = \<lparr>state = world0, started = []\<rparr>"

definition overlapping :: "action list" where
  "overlapping =
     [Submit 0 event1 0 0,
      Tick (\<lambda>k. 2500000000) [''evt-1''],
      Tick (\<lambda>k. 4500000000) [''evt-1''],
      Finish 0 envBrokerDown,
      Tick (\<lambda>k. 6500000000) [''evt-1''],
      Finish 0 envBrokerDown,
      Tick (\<lambda>k. 8500000000) [''evt-1''],
      Finish 0 envBrokerDown,
      Finish 0 envBrokerDown,
      Finish 0 envBrokerDown]"

section \<open>Properties\<close>

subsection \<open>Aggregation\<close>

lemma collect_snd:
  "snd (collect rs (acc, b)) \<longleftrightarrow> b \<and> (\<forall>r \<in> set rs. Success r)"
  by (induction rs arbitrary: acc b) auto

lemma collect_fst: "fst (collect rs (acc, b)) = acc @ rs"
  by (induction rs arbitrary: acc b) auto

lemma aggregate_snd:
  "snd (aggregate e event) \<longleftrightarrow> (\<forall>r \<in> set (map fst (dispatch e event)). Success r)"
  by (simp add: aggregate_def collect_snd)

lemma dispatch_envBothOk:
  "map fst (dispatch envBothOk event1) =
     [\<lparr>Channel = ''webhook'', Success = True, Error = '''', Duration = 0, Timestamp = 0\<rparr>,
      \<lparr>Channel = ''rabbitmq'', Success = True, Error = '''', Duration = 0, Timestamp = 0\<rparr>]"
  by (simp add: dispatch_def envBothOk_def envNone_def event1_def deliverToUserWebhook_def
      deliverToRabbitMQ_def Milliseconds_def Let_def)

lemma dispatch_envBrokerDown:
  "map fst (dispatch envBrokerDown event1) =
     [\<lparr>Channel = ''webhook'', Success = True, Error = '''', Duration = 0, Timestamp = 0\<rparr>,
      \<lparr>Channel = ''rabbitmq'', Success = False, Error = ''broker down'', Duration = 0,
       Timestamp = 0\<rparr>]"
  by (simp add: dispatch_def envBrokerDown_def envBothOk_def envNone_def event1_def
      deliverToUserWebhook_def deliverToRabbitMQ_def Milliseconds_def Let_def)



subsection \<open>Facts about the examples and the dispatch\<close>

lemma event1_simps:
  "ID event1 = ''evt-1''" "UserID event1 = ''t1''" "AttemptCount event1 = 0"
  "Status event1 = DeliveryStatusPending" "LastError event1 = ''''"
  by (simp_all add: event1_def)

lemma world1_simps:
  "heap world1 p = event1" "maxRetries (dm world1) = 3"
  "pendingEvents (dm world1) = [''evt-1'' \<mapsto> 0]"
  by (simp_all add: world1_def InitDeliveryManager_def)

lemma world2_simps:
  "heap world2 p = event1\<lparr>AttemptCount := 2\<rparr>" "maxRetries (dm world2) = 3"
  "pendingEvents (dm world2) = [''evt-1'' \<mapsto> 0]"
  by (simp_all add: world2_def world1_def InitDeliveryManager_def)

text \<open>The adapters read five fields of the event and nothing else of it.\<close>

lemma dispatch_cong:
  assumes "Token a = Token b" "UserID a = UserID b" "JsonData a = JsonData b"
    "FilePath a = FilePath b" "EventType a = EventType b"
  shows "dispatch e a = dispatch e b"
  using assms
  by (simp add: dispatch_def deliverToUserWebhook_def deliverToGlobalWebhook_def
      deliverToRabbitMQ_def instanceNameOf_def Let_def split: option.split)

lemma dispatch_count_irrelevant:
  "dispatch e (event\<lparr>AttemptCount := n\<rparr>) = dispatch e event"
  by (rule dispatch_cong) simp_all

lemma aggregate_envBrokerDown: "\<not> snd (aggregate envBrokerDown event1)"
  by (simp add: aggregate_snd dispatch_envBrokerDown)

lemma aggregate_envBrokerDown2:
  "\<not> snd (aggregate envBrokerDown (event1\<lparr>AttemptCount := 2\<rparr>))"
  by (simp add: aggregate_snd dispatch_count_irrelevant dispatch_envBrokerDown)

subsection \<open>A failed cycle\<close>

text \<open>
  C2, as the code has it. In a cycle whose aggregation is a failure, \<open>AttemptCount\<close> is
  incremented; if it has then reached \<open>maxRetries\<close>, the status becomes Failed,
  \<open>LastError\<close> becomes the fixed text "Max retries exceeded" and the id is removed from
  the pending map; otherwise status and \<open>LastError\<close> stay as they were and the pending map
  is unchanged. No branch copies the error of a channel result into \<open>LastError\<close>.
\<close>

theorem processDelivery_failure:
  "\<not> snd (aggregate e (heap w p)) \<Longrightarrow>
   AttemptCount (heap (processDelivery e p w) p) = AttemptCount (heap w p) + 1 \<and>
   (word_sle (maxRetries (dm w)) (AttemptCount (heap w p) + 1) \<longrightarrow>
      Status (heap (processDelivery e p w) p) = DeliveryStatusFailed \<and>
      LastError (heap (processDelivery e p w) p) = ''Max retries exceeded'' \<and>
      pendingEvents (dm (processDelivery e p w)) (ID (heap w p)) = None) \<and>
   (\<not> word_sle (maxRetries (dm w)) (AttemptCount (heap w p) + 1) \<longrightarrow>
      Status (heap (processDelivery e p w) p) = Status (heap w p) \<and>
      LastError (heap (processDelivery e p w) p) = LastError (heap w p) \<and>
      pendingEvents (dm (processDelivery e p w)) = pendingEvents (dm w))"
  by (simp add: processDelivery_def updateStatus_def Let_def)

theorem processDelivery_failure_witness:
  "\<not> snd (aggregate envBrokerDown (heap world2 0)) \<and>
   word_sle (maxRetries (dm world2)) (AttemptCount (heap world2 0) + 1) \<and>
   AttemptCount (heap (processDelivery envBrokerDown 0 world2) 0) = 3 \<and>
   Status (heap (processDelivery envBrokerDown 0 world2) 0) = DeliveryStatusFailed \<and>
   LastError (heap (processDelivery envBrokerDown 0 world2) 0) = ''Max retries exceeded'' \<and>
   pendingEvents (dm (processDelivery envBrokerDown 0 world2)) ''evt-1'' = None \<and>
   \<not> snd (aggregate envBrokerDown (heap world1 0)) \<and>
   \<not> word_sle (maxRetries (dm world1)) (AttemptCount (heap world1 0) + 1) \<and>
   AttemptCount (heap (processDelivery envBrokerDown 0 world1) 0) = 1 \<and>
   Status (heap (processDelivery envBrokerDown 0 world1) 0) = DeliveryStatusPending \<and>
   LastError (heap (processDelivery envBrokerDown 0 world1) 0) = '''' \<and>
   pendingEvents (dm (processDelivery envBrokerDown 0 world1)) ''evt-1'' = Some 0"
proof -
  have a2: "\<not> snd (aggregate envBrokerDown (heap world2 0))"
    by (simp add: world2_simps aggregate_envBrokerDown2)
  have a1: "\<not> snd (aggregate envBrokerDown (heap world1 0))"
    by (simp add: world1_simps aggregate_envBrokerDown)
  have r2: "word_sle (maxRetries (dm world2)) (AttemptCount (heap world2 0) + 1)"
    by (simp add: world2_simps event1_simps word_sle_eq)
  have r1: "\<not> word_sle (maxRetries (dm world1)) (AttemptCount (heap world1 0) + 1)"
    by (simp add: world1_simps event1_simps word_sle_eq)
  note t2 = processDelivery_failure [OF a2] and t1 = processDelivery_failure [OF a1]
  from t2 r2 have
    "AttemptCount (heap (processDelivery envBrokerDown 0 world2) 0) =
       AttemptCount (heap world2 0) + 1"
    "Status (heap (processDelivery envBrokerDown 0 world2) 0) = DeliveryStatusFailed"
    "LastError (heap (processDelivery envBrokerDown 0 world2) 0) = ''Max retries exceeded''"
    "pendingEvents (dm (processDelivery envBrokerDown 0 world2)) (ID (heap world2 0)) = None"
    by blast+
  moreover from t1 r1 have
    "AttemptCount (heap (processDelivery envBrokerDown 0 world1) 0) =
       AttemptCount (heap world1 0) + 1"
    "Status (heap (processDelivery envBrokerDown 0 world1) 0) = Status (heap world1 0)"
    "LastError (heap (processDelivery envBrokerDown 0 world1) 0) = LastError (heap world1 0)"
    "pendingEvents (dm (processDelivery envBrokerDown 0 world1)) = pendingEvents (dm world1)"
    by blast+
  ultimately show ?thesis using a1 a2 r1 r2
    by (simp add: world1_simps world2_simps event1_simps)
qed

text \<open>
  The claim as the specification words it fails in both branches: with the broker
  answering "broker down", the cycle that exhausts the retries leaves \<open>LastError\<close>
  different from that error, and a cycle that does not exhaust them leaves \<open>LastError\<close>
  empty.
\<close>

theorem lastError_not_from_result:
  "map Error (map fst (dispatch envBrokerDown (heap world2 0))) = ['''', ''broker down''] \<and>
   map Success (map fst (dispatch envBrokerDown (heap world2 0))) = [True, False] \<and>
   AttemptCount (heap world2 0) + 1 = maxRetries (dm world2) \<and>
   Status (heap (processDelivery envBrokerDown 0 world2) 0) = DeliveryStatusFailed \<and>
   LastError (heap (processDelivery envBrokerDown 0 world2) 0) \<noteq> ''broker down'' \<and>
   map Success (map fst (dispatch envBrokerDown (heap world1 0))) = [True, False] \<and>
   AttemptCount (heap (processDelivery envBrokerDown 0 world1) 0) = 1 \<and>
   Status (heap (processDelivery envBrokerDown 0 world1) 0) = DeliveryStatusPending \<and>
   LastError (heap (processDelivery envBrokerDown 0 world1) 0) = '''' \<and>
   LastError (heap (processDelivery envBrokerDown 0 world1) 0) \<noteq> ''broker down''"
  by (simp add: world1_simps world2_simps dispatch_count_irrelevant dispatch_envBrokerDown
      processDelivery_def updateStatus_def aggregate_envBrokerDown aggregate_envBrokerDown2
      Let_def event1_simps word_sle_eq DeliveryStatusPending_def DeliveryStatusFailed_def)

subsection \<open>The attempt counter\<close>

lemma sint_succ:
  fixes x :: "64 word"
  assumes "sint x < 2 ^ 63 - 1"
  shows "sint (x + 1) = sint x + 1"
proof -
  have "- (2 ^ 63) \<le> sint x" using sint_ge [of x] by simp
  with assms have "- (2 ^ 63) \<le> sint x + 1" "sint x + 1 < 2 ^ 63" by linarith+
  then show ?thesis by (simp add: sint_word_ariths signed_take_bit_int_eq_self)
qed

lemma DeliverEvent_heap:
  "heap (fst (DeliverEvent now nanos p w)) p =
     (heap w p)\<lparr>ID := assignedID (heap w p) nanos, CreatedAt := now,
                 Status := DeliveryStatusPending\<rparr>"
  by (simp add: DeliverEvent_def Let_def assignedID_def)

text \<open>
  C3, as the code has it. \<open>DeliverEvent\<close> does not write \<open>AttemptCount\<close>: an event
  starts with the count its record carries, 0 for a record built with Go's zero value. A
  cycle whose aggregation is a failure increments the counter by exactly 1 (short of the
  largest \<open>int\<close> the increment does not wrap); a successful cycle leaves it unchanged.
\<close>

theorem attemptCount_cycle:
  "AttemptCount (heap (fst (DeliverEvent now nanos p w)) p) = AttemptCount (heap w p) \<and>
   AttemptCount (heap (processDelivery e p w) p) =
     (if snd (aggregate e (heap w p)) then AttemptCount (heap w p)
      else AttemptCount (heap w p) + 1) \<and>
   (\<not> snd (aggregate e (heap w p)) \<and> sint (AttemptCount (heap w p)) < 2 ^ 63 - 1 \<longrightarrow>
      sint (AttemptCount (heap (processDelivery e p w) p)) =
        sint (AttemptCount (heap w p)) + 1)"
proof -
  have 1: "AttemptCount (heap (fst (DeliverEvent now nanos p w)) p) = AttemptCount (heap w p)"
    by (simp add: DeliverEvent_heap)
  have 2: "AttemptCount (heap (processDelivery e p w) p) =
     (if snd (aggregate e (heap w p)) then AttemptCount (heap w p)
      else AttemptCount (heap w p) + 1)"
    by (simp add: processDelivery_def updateStatus_def Let_def)
  have 3: "sint (AttemptCount (heap (processDelivery e p w) p)) =
        sint (AttemptCount (heap w p)) + 1"
    if "\<not> snd (aggregate e (heap w p))" "sint (AttemptCount (heap w p)) < 2 ^ 63 - 1"
    using that by (simp add: 2 sint_succ)
  from 1 2 3 show ?thesis by blast
qed

theorem attemptCount_cycle_witness:
  "AttemptCount (heap (fst (DeliverEvent 5 6 0 world1)) 0) = 0 \<and>
   \<not> snd (aggregate envBrokerDown (heap world2 0)) \<and>
   sint (AttemptCount (heap world2 0)) = 2 \<and>
   sint (AttemptCount (heap (processDelivery envBrokerDown 0 world2) 0)) = 3 \<and>
   snd (aggregate envBothOk (heap world2 0)) \<and>
   AttemptCount (heap (processDelivery envBothOk 0 world2) 0) = 2"
proof -
  have a: "\<not> snd (aggregate envBrokerDown (heap world2 0))"
    by (simp add: world2_simps aggregate_envBrokerDown2)
  have b: "snd (aggregate envBothOk (heap world2 0))"
    by (simp add: world2_simps aggregate_snd dispatch_count_irrelevant dispatch_envBothOk)
  have s: "sint (AttemptCount (heap world2 0)) = 2" "AttemptCount (heap world2 0) = 2"
    "AttemptCount (heap world1 0) = 0"
    by (simp_all add: world2_simps world1_simps event1_simps)
  have r: "sint (AttemptCount (heap world2 0)) < 2 ^ 63 - 1" by (simp add: s)
  from attemptCount_cycle [of 0 0 0 world2 envBrokerDown] a r have
    "sint (AttemptCount (heap (processDelivery envBrokerDown 0 world2) 0)) =
       sint (AttemptCount (heap world2 0)) + 1"
    by blast
  moreover from attemptCount_cycle [of 0 0 0 world2 envBothOk] b have
    "AttemptCount (heap (processDelivery envBothOk 0 world2) 0) = AttemptCount (heap world2 0)"
    by auto
  moreover from attemptCount_cycle [of 5 6 0 world1 envBothOk] have
    "AttemptCount (heap (fst (DeliverEvent 5 6 0 world1)) 0) = AttemptCount (heap world1 0)"
    by blast
  ultimately show ?thesis using a b s by simp
qed

text \<open>
  The run \<open>overlapping\<close>: a sweep selects an event by the counter it reads at that
  moment, and every fan-out it starts increments the counter when it fails. After the
  third and after the seventh step three fan-outs of the one event are under way.
\<close>

lemma overlapping_run:
  "started (run (take 3 overlapping) system0) = [0, 0, 0] \<and>
   started (run (take 7 overlapping) system0) = [0, 0, 0] \<and>
   sint (AttemptCount (heap (state (run overlapping system0)) 0)) = 5 \<and>
   sint (maxRetries (dm (state (run overlapping system0)))) = 3"
  by code_simp

text \<open>
  The claim as the specification words it fails in each of its three parts. A cycle in
  which both channels succeed leaves the counter at 0, so successful cycles are not
  counted. In the run \<open>overlapping\<close> five fan-outs of one event are started while its
  counter is below \<open>maxRetries = 3\<close>, and the counter ends at 5. An event submitted with
  a count of 2 in its record is stored with 2.
\<close>

theorem attemptCount_claim_fails:
  "map Success (map fst (dispatch envBothOk (heap world1 0))) = [True, True] \<and>
   AttemptCount (heap world1 0) = 0 \<and>
   AttemptCount (heap (processDelivery envBothOk 0 world1) 0) = 0 \<and>
   sint (maxRetries (dm (state (run overlapping system0)))) = 3 \<and>
   sint (AttemptCount (heap (state (run overlapping system0)) 0)) = 5 \<and>
   sint (AttemptCount (heap world2 0)) = 2 \<and>
   sint (AttemptCount (heap (fst (DeliverEvent 5 6 0 world2)) 0)) = 2"
proof -
  have "map Success (map fst (dispatch envBothOk (heap world1 0))) = [True, True] \<and>
   AttemptCount (heap world1 0) = 0 \<and>
   AttemptCount (heap (processDelivery envBothOk 0 world1) 0) = 0"
    by (simp add: world1_simps dispatch_envBothOk processDelivery_def updateStatus_def
      aggregate_snd Let_def event1_simps)
  moreover have "sint (AttemptCount (heap world2 0)) = 2 \<and>
     sint (AttemptCount (heap (fst (DeliverEvent 5 6 0 world2)) 0)) = 2"
    by (simp add: DeliverEvent_heap world2_simps)
  ultimately show ?thesis using overlapping_run by simp
qed

subsection \<open>Which channels a fan-out dispatches\<close>

lemma Channel_adapters:
  "Channel (fst (deliverToUserWebhook e event url)) = ''webhook''"
  "Channel (fst (deliverToGlobalWebhook e event)) = ''global_webhook''"
  "Channel (fst (deliverToRabbitMQ e event)) = ''rabbitmq''"
  by (simp_all add: deliverToUserWebhook_def deliverToGlobalWebhook_def
      deliverToRabbitMQ_def Let_def split: option.split)

lemma dispatch_channels:
  "map (Channel \<circ> fst) (dispatch e event) = enabledChannels e event"
  by (simp add: dispatch_def enabledChannels_def Let_def Channel_adapters)

lemma worldFailed_simps:
  "heap worldFailed 0 = event1\<lparr>AttemptCount := 3, Status := DeliveryStatusFailed,
      LastError := ''Max retries exceeded''\<rparr>"
  "pendingEvents (dm worldFailed) = Map.empty"
  by (simp_all add: worldFailed_def processDelivery_def updateStatus_def Let_def
      aggregate_envBrokerDown2 world2_simps event1_simps word_sle_eq)

subsection \<open>Forced retry\<close>

text \<open>
  C4, as the code has it. \<open>ForceRetry\<close> with a non-empty id looks the id up in the
  pending map. For an id that is there it resets \<open>AttemptCount\<close> to 0, sets the status to
  Pending and starts one fan-out of that event, which dispatches every enabled channel
  whatever earlier cycles returned. For an id that is not there it answers 404, writes
  nothing and starts nothing; an event that reached Failed was removed from the map when
  it did, so this is the answer it gets.
\<close>

theorem ForceRetry_by_id:
  "eventID \<noteq> '''' \<Longrightarrow>
   (pendingEvents d eventID = Some p \<longrightarrow>
      ForceRetry clock ks eventID h (Some d) =
        (Respond 200 (''Retry triggered for event: '' @ eventID),
         h(p := (h p)\<lparr>AttemptCount := 0, Status := DeliveryStatusPending\<rparr>), [p]) \<and>
      map (Channel \<circ> fst)
          (dispatch e ((h p)\<lparr>AttemptCount := 0, Status := DeliveryStatusPending\<rparr>)) =
        enabledChannels e (h p)) \<and>
   (pendingEvents d eventID = None \<longrightarrow>
      ForceRetry clock ks eventID h (Some d) = (Respond 404 ''Event not found'', h, []))"
  by (simp add: ForceRetry_def GetEventStatus_def dispatch_channels enabledChannels_def)

theorem ForceRetry_by_id_witness:
  "''evt-1'' \<noteq> '''' \<and> pendingEvents (dm world2) ''evt-1'' = Some 0 \<and>
   fst (ForceRetry (\<lambda>k. 0) [] ''evt-1'' (heap world2) (Some (dm world2))) =
      Respond 200 ''Retry triggered for event: evt-1'' \<and>
   AttemptCount
     (fst (snd (ForceRetry (\<lambda>k. 0) [] ''evt-1'' (heap world2) (Some (dm world2)))) 0) = 0 \<and>
   Status
     (fst (snd (ForceRetry (\<lambda>k. 0) [] ''evt-1'' (heap world2) (Some (dm world2)))) 0) =
      DeliveryStatusPending \<and>
   snd (snd (ForceRetry (\<lambda>k. 0) [] ''evt-1'' (heap world2) (Some (dm world2)))) = [0] \<and>
   map (Channel \<circ> fst)
     (dispatch envBothOk
        ((heap world2 0)\<lparr>AttemptCount := 0, Status := DeliveryStatusPending\<rparr>)) =
     [''webhook'', ''rabbitmq''] \<and>
   pendingEvents (dm worldFailed) ''evt-1'' = None \<and>
   ForceRetry (\<lambda>k. 0) [] ''evt-1'' (heap worldFailed) (Some (dm worldFailed)) =
     (Respond 404 ''Event not found'', heap worldFailed, [])"
proof -
  have n: "''evt-1'' \<noteq> ''''" by simp
  have p: "pendingEvents (dm world2) ''evt-1'' = Some 0" by (simp add: world2_simps)
  have q: "pendingEvents (dm worldFailed) ''evt-1'' = None" by (simp add: worldFailed_simps)
  have en: "enabledChannels envBothOk (heap world2 0) = [''webhook'', ''rabbitmq'']"
    by (simp add: enabledChannels_def envBothOk_def envNone_def)
  from ForceRetry_by_id [OF n, of "dm world2" 0 "\<lambda>k. 0" "[]" "heap world2" envBothOk] p
  have "ForceRetry (\<lambda>k. 0) [] ''evt-1'' (heap world2) (Some (dm world2)) =
        (Respond 200 (''Retry triggered for event: '' @ ''evt-1''),
         (heap world2)
           (0 := (heap world2 0)\<lparr>AttemptCount := 0, Status := DeliveryStatusPending\<rparr>),
         [0])"
    "map (Channel \<circ> fst)
       (dispatch envBothOk
          ((heap world2 0)\<lparr>AttemptCount := 0, Status := DeliveryStatusPending\<rparr>)) =
     enabledChannels envBothOk (heap world2 0)"
    by blast+
  moreover
  from ForceRetry_by_id [OF n, of "dm worldFailed" 0 "\<lambda>k. 0" "[]" "heap worldFailed" envBothOk] q
  have "ForceRetry (\<lambda>k. 0) [] ''evt-1'' (heap worldFailed) (Some (dm worldFailed)) =
     (Respond 404 ''Event not found'', heap worldFailed, [])"
    by blast
  ultimately show ?thesis using p q en by simp
qed

text \<open>
  The claim is about an event that reached Failed. Such an event is no longer in the
  map: the handler answers 404, the counter stays at 3, the status stays Failed and no
  fan-out is started.
\<close>

theorem ForceRetry_failed_event_not_found:
  "Status (heap worldFailed 0) = DeliveryStatusFailed \<and>
   ID (heap worldFailed 0) = ''evt-1'' \<and>
   fst (ForceRetry (\<lambda>k. 0) [] ''evt-1'' (heap worldFailed) (Some (dm worldFailed))) =
     Respond 404 ''Event not found'' \<and>
   snd (snd (ForceRetry (\<lambda>k. 0) [] ''evt-1'' (heap worldFailed) (Some (dm worldFailed)))) =
     [] \<and>
   AttemptCount
     (fst (snd (ForceRetry (\<lambda>k. 0) [] ''evt-1'' (heap worldFailed)
                  (Some (dm worldFailed)))) 0) = 3 \<and>
   Status
     (fst (snd (ForceRetry (\<lambda>k. 0) [] ''evt-1'' (heap worldFailed)
                  (Some (dm worldFailed)))) 0) = DeliveryStatusFailed"
  by (simp add: ForceRetry_def GetEventStatus_def worldFailed_simps event1_simps)

subsection \<open>No channel enabled\<close>

lemma assignedID_upd:
  "assignedID (event\<lparr>CreatedAt := a, Status := b\<rparr>) nanos = assignedID event nanos"
  by (simp add: assignedID_def)

lemma DeliverEvent_fst:
  "fst (DeliverEvent now nanos p w) =
     w\<lparr>heap := (heap w)(p := (heap w p)\<lparr>CreatedAt := now,
                 Status := DeliveryStatusPending, ID := assignedID (heap w p) nanos\<rparr>),
       dm := (dm w)\<lparr>pendingEvents :=
                      (pendingEvents (dm w))(assignedID (heap w p) nanos \<mapsto> p)\<rparr>\<rparr>"
  by (simp add: DeliverEvent_def Let_def assignedID_upd)

lemma processDelivery_no_results:
  "dispatch e (heap w p) = [] \<Longrightarrow>
   processDelivery e p w =
     w\<lparr>heap := (heap w)(p := (heap w p)\<lparr>Status := DeliveryStatusDelivered\<rparr>),
       dm := (dm w)\<lparr>pendingEvents := (pendingEvents (dm w))(ID (heap w p) := None)\<rparr>\<rparr>"
  by (simp add: processDelivery_def aggregate_def updateStatus_def Let_def)

lemma assignedID_world0: "assignedID (event1\<lparr>ID := ''''\<rparr>) 6 = ''t1_6''"
proof -
  have "decInt 6 = ''6''" by code_simp
  then show ?thesis by (simp add: assignedID_def event1_simps)
qed

text \<open>
  C5. When the user webhook URL is empty, the global webhook URL is empty and the broker
  is disabled, the fan-out that follows \<open>DeliverEvent\<close> dispatches nothing, sets the status
  to Delivered without counting an attempt and removes the event from the pending map. In
  any fan-out a channel without a destination has no result among the dispatched ones,
  so it cannot be counted as a failure.
\<close>

theorem no_channel_delivered:
  "(getUserWebhookUrl e (Token (heap w p)) = '''' \<and> globalWebhook e = '''' \<and>
    \<not> rabbitEnabled e \<longrightarrow>
      dispatch e (heap (fst (DeliverEvent now nanos p w)) p) = [] \<and>
      Status (heap (processDelivery e p (fst (DeliverEvent now nanos p w))) p) =
        DeliveryStatusDelivered \<and>
      AttemptCount (heap (processDelivery e p (fst (DeliverEvent now nanos p w))) p) =
        AttemptCount (heap w p) \<and>
      pendingEvents (dm (processDelivery e p (fst (DeliverEvent now nanos p w))))
        (assignedID (heap w p) nanos) = None) \<and>
   (getUserWebhookUrl e (Token event) = '''' \<longrightarrow>
      ''webhook'' \<notin> set (map (Channel \<circ> fst) (dispatch e event))) \<and>
   (globalWebhook e = '''' \<longrightarrow>
      ''global_webhook'' \<notin> set (map (Channel \<circ> fst) (dispatch e event))) \<and>
   (\<not> rabbitEnabled e \<longrightarrow>
      ''rabbitmq'' \<notin> set (map (Channel \<circ> fst) (dispatch e event)))"
proof -
  have skip: "getUserWebhookUrl e (Token event) = '''' \<longrightarrow>
      ''webhook'' \<notin> set (map (Channel \<circ> fst) (dispatch e event))"
    "globalWebhook e = '''' \<longrightarrow>
      ''global_webhook'' \<notin> set (map (Channel \<circ> fst) (dispatch e event))"
    "\<not> rabbitEnabled e \<longrightarrow>
      ''rabbitmq'' \<notin> set (map (Channel \<circ> fst) (dispatch e event))"
    unfolding dispatch_channels by (simp_all add: enabledChannels_def)
  have main: "dispatch e (heap (fst (DeliverEvent now nanos p w)) p) = [] \<and>
      Status (heap (processDelivery e p (fst (DeliverEvent now nanos p w))) p) =
        DeliveryStatusDelivered \<and>
      AttemptCount (heap (processDelivery e p (fst (DeliverEvent now nanos p w))) p) =
        AttemptCount (heap w p) \<and>
      pendingEvents (dm (processDelivery e p (fst (DeliverEvent now nanos p w))))
        (assignedID (heap w p) nanos) = None"
    if off: "getUserWebhookUrl e (Token (heap w p)) = ''''" "globalWebhook e = ''''"
      "\<not> rabbitEnabled e"
  proof -
    let ?w1 = "fst (DeliverEvent now nanos p w)"
    have d: "dispatch e (heap ?w1 p) = []"
      using off by (simp add: dispatch_def DeliverEvent_heap)
    show ?thesis
      by (simp add: d processDelivery_no_results [OF d]) (simp add: DeliverEvent_fst)
  qed
  from skip main show ?thesis by blast
qed

theorem no_channel_delivered_witness:
  "getUserWebhookUrl envNone (Token (heap world0 0)) = '''' \<and>
   globalWebhook envNone = '''' \<and> \<not> rabbitEnabled envNone \<and>
   assignedID (heap world0 0) 6 = ''t1_6'' \<and>
   pendingEvents (dm (fst (DeliverEvent 5 6 0 world0))) ''t1_6'' = Some 0 \<and>
   Status (heap (processDelivery envNone 0 (fst (DeliverEvent 5 6 0 world0))) 0) =
     DeliveryStatusDelivered \<and>
   pendingEvents (dm (processDelivery envNone 0 (fst (DeliverEvent 5 6 0 world0))))
     ''t1_6'' = None"
proof -
  have off: "getUserWebhookUrl envNone (Token (heap world0 0)) = '''' \<and>
     globalWebhook envNone = '''' \<and> \<not> rabbitEnabled envNone"
    by (simp add: envNone_def)
  have a: "assignedID (heap world0 0) 6 = ''t1_6''"
    by (simp add: world0_def assignedID_world0)
  have s: "pendingEvents (dm (fst (DeliverEvent 5 6 0 world0))) ''t1_6'' = Some 0"
    by (simp add: DeliverEvent_fst a)
  from no_channel_delivered [of envNone world0 0 5 6] off have
    "Status (heap (processDelivery envNone 0 (fst (DeliverEvent 5 6 0 world0))) 0) =
        DeliveryStatusDelivered"
    "pendingEvents (dm (processDelivery envNone 0 (fst (DeliverEvent 5 6 0 world0))))
        (assignedID (heap world0 0) 6) = None"
    by blast+
  with off a s show ?thesis by simp
qed

subsection \<open>The retry sweep\<close>

lemma rangeMap_mem:
  "(k, v) \<in> set (rangeMap m ks) \<longleftrightarrow> k \<in> set ks \<and> m k = Some v"
  by (induction ks) (auto split: option.splits)

lemma rangeMap_all:
  "set ks \<subseteq> dom m \<Longrightarrow> rangeMap m ks = map (\<lambda>k. (k, the (m k))) ks"
  by (induction ks) (auto split: option.splits)


lemma world3_simps:
  "pendingEvents (dm world3) = [''a'' \<mapsto> 0, ''b'' \<mapsto> 1, ''c'' \<mapsto> 2]"
  "maxRetries (dm world3) = 3" "retryBackoff (dm world3) = 2000000000"
  "heap world3 0 = event1\<lparr>ID := ''a'', AttemptCount := 1\<rparr>"
  "heap world3 (Suc 0) = event1\<lparr>ID := ''b'', CreatedAt := 9000000000\<rparr>"
  "heap world3 2 = event1\<lparr>ID := ''c'', UserID := ''t2'', AttemptCount := 3\<rparr>"
  by (simp_all add: world3_def InitDeliveryManager_def)

lemma iterationOrder_world3:
  "iterationOrder (pendingEvents (dm world3)) [''c'', ''a'', ''b'']"
  by (auto simp add: iterationOrder_def world3_simps)




subsection \<open>The listing of pending events\<close>

lemma metricsLoop_eq:
  "metricsLoop userID limit h ps (evs, count) =
     (evs @ take (nat (limit - count))
              (filter (\<lambda>p. userID = '''' \<or> UserID (h p) = userID) ps),
      count + int (length (filter (\<lambda>p. userID = '''' \<or> UserID (h p) = userID) ps)))"
proof (induction ps arbitrary: evs count)
  case Nil
  then show ?case by simp
next
  case (Cons p ps)
  show ?case
  proof (cases "userID = '''' \<or> UserID (h p) = userID")
    case False
    then show ?thesis using Cons.IH by simp
  next
    case True
    show ?thesis
    proof (cases "count < limit")
      case lt: True
      then have "nat (limit - count) = Suc (nat (limit - (count + 1)))" by simp
      with True lt show ?thesis using Cons.IH [of "evs @ [p]" "count + 1"] by auto
    next
      case ge: False
      then have "nat (limit - count) = 0" "nat (limit - (count + 1)) = 0" by simp_all
      with True ge show ?thesis using Cons.IH [of evs "count + 1"] by auto
    qed
  qed
qed

lemma int_min_nat: "0 < L \<Longrightarrow> int (min n (nat L)) = min L (int n)"
  by (auto simp add: min_def)

lemma queryLimit_pos: "0 < queryLimit limitStr"
  by (simp add: queryLimit_def Let_def split: option.split)

lemma queryLimit_default: "queryLimit '''' = 50"
  by (simp add: queryLimit_def)

lemma queryLimit_one: "queryLimit ''1'' = 1"
  by code_simp

text \<open>
  C8. With the manager initialised and the body marshalled, the listing answers with at
  most \<open>limit\<close> events, all of the filtered tenant when a tenant is given and all taken
  from the pending map; with the number of entries of the map; and with the number of
  entries that match the filter, those beyond the limit included. \<open>shown_count\<close> is the
  smaller of the limit and that number. The limit is 50 when the query parameter is
  absent (and when it does not parse as a positive integer).
\<close>

theorem DeliveryMetrics_listing:
  assumes "iterationOrder (pendingEvents d) ks"
  shows "\<exists>m. DeliveryMetrics None ks userID limitStr h (Some d) = WriteMetrics m \<and>
           int (length (events m)) \<le> queryLimit limitStr \<and>
           (\<forall>ev \<in> set (events m). userID = '''' \<or> UserID ev = userID) \<and>
           set (events m) \<subseteq> h ` ran (pendingEvents d) \<and>
           total_pending m = GetPendingEventsCount d \<and>
           filtered_count m =
             int (card {k. \<exists>p. pendingEvents d k = Some p \<and>
                                (userID = '''' \<or> UserID (h p) = userID)}) \<and>
           shown_count m = int (length (events m)) \<and>
           shown_count m = min (queryLimit limitStr) (filtered_count m) \<and>
           queryLimit '''' = 50 \<and>
           (limitStr \<noteq> '''' \<longrightarrow> queryLimit limitStr =
              (case Atoi limitStr of Some n \<Rightarrow> if n > 0 then n else 50 | None \<Rightarrow> 50))"
proof -
  let ?m = "pendingEvents d"
  let ?P = "\<lambda>p. userID = '''' \<or> UserID (h p) = userID"
  let ?ps = "map snd (rangeMap ?m ks)"
  let ?match = "filter ?P ?ps"
  let ?L = "queryLimit limitStr"
  let ?M = "\<lparr>total_pending = int (card (dom ?m)), filtered_count = int (length ?match),
             shown_count = int (length (take (nat ?L) ?match)),
             events = map h (take (nat ?L) ?match)\<rparr>"
  from assms have d: "distinct ks" and s: "set ks = dom ?m"
    by (simp_all add: iterationOrder_def)
  have eq: "DeliveryMetrics None ks userID limitStr h (Some d) = WriteMetrics ?M"
    by (simp add: DeliveryMetrics_def metricsLoop_eq Let_def)
  have ps: "?ps = map (\<lambda>k. the (?m k)) ks"
    using s by (simp add: rangeMap_all comp_def)
  have "length ?match = length (filter (\<lambda>k. ?P (the (?m k))) ks)"
    by (simp add: ps filter_map comp_def)
  also have "\<dots> = card {k \<in> set ks. ?P (the (?m k))}"
    using d by (simp add: distinct_length_filter Int_def conj_commute)
  also have "{k \<in> set ks. ?P (the (?m k))} = {k. \<exists>p. ?m k = Some p \<and> ?P p}"
    using s by auto
  finally have cnt: "length ?match = card {k. \<exists>p. ?m k = Some p \<and> ?P p}" .
  have sub: "set (take (nat ?L) ?match) \<subseteq> set ?match"
    by (rule set_take_subset)
  have f: "\<forall>ev \<in> set (events ?M). userID = '''' \<or> UserID ev = userID"
    using sub by auto
  have "set ?ps \<subseteq> ran ?m"
    by (auto simp add: rangeMap_mem ran_def)
  moreover have "set ?match \<subseteq> set ?ps" by simp
  ultimately have "set (take (nat ?L) ?match) \<subseteq> ran ?m"
    using sub by blast
  then have r: "set (events ?M) \<subseteq> h ` ran ?m"
    by (simp add: image_mono)
  have l: "int (length (events ?M)) \<le> ?L" using queryLimit_pos [of limitStr] by simp
  have sh: "shown_count ?M = min ?L (filtered_count ?M)"
    using queryLimit_pos [of limitStr] by (simp add: int_min_nat)
  have q: "limitStr \<noteq> '''' \<longrightarrow> queryLimit limitStr =
              (case Atoi limitStr of Some n \<Rightarrow> if n > 0 then n else 50 | None \<Rightarrow> 50)"
    by (simp add: queryLimit_def)
  have t: "total_pending ?M = GetPendingEventsCount d"
    by (simp add: GetPendingEventsCount_def)
  have fc: "filtered_count ?M = int (card {k. \<exists>p. ?m k = Some p \<and> ?P p})"
    using cnt by simp
  have sc: "shown_count ?M = int (length (events ?M))" by simp
  from eq l f r t fc sc sh queryLimit_default q show ?thesis by blast
qed


lemma DeliveryMetrics_world3:
  "DeliveryMetrics None [''c'', ''a'', ''b''] ''t1'' ''1'' (heap world3) (Some (dm world3)) =
     WriteMetrics \<lparr>total_pending = 3, filtered_count = 2, shown_count = 1,
                   events = [event1\<lparr>ID := ''a'', AttemptCount := 1\<rparr>]\<rparr>"
  by (simp add: DeliveryMetrics_def queryLimit_one world3_simps event1_simps Let_def)

theorem DeliveryMetrics_listing_witness:
  "iterationOrder (pendingEvents (dm world3)) [''c'', ''a'', ''b''] \<and>
   queryLimit ''1'' = 1 \<and>
   DeliveryMetrics None [''c'', ''a'', ''b''] ''t1'' ''1'' (heap world3) (Some (dm world3)) =
     WriteMetrics \<lparr>total_pending = 3, filtered_count = 2, shown_count = 1,
                   events = [event1\<lparr>ID := ''a'', AttemptCount := 1\<rparr>]\<rparr> \<and>
   GetPendingEventsCount (dm world3) = 3 \<and>
   int (length [event1\<lparr>ID := ''a'', AttemptCount := 1\<rparr>]) \<le> queryLimit ''1''"
proof -
  from DeliveryMetrics_listing [OF iterationOrder_world3, of "''t1''" "''1''" "heap world3"]
  obtain m where
    m: "DeliveryMetrics None [''c'', ''a'', ''b''] ''t1'' ''1'' (heap world3) (Some (dm world3)) =
          WriteMetrics m"
    and l: "int (length (events m)) \<le> queryLimit ''1''"
    and t: "total_pending m = GetPendingEventsCount (dm world3)"
    by blast
  from m DeliveryMetrics_world3 have
    "m = \<lparr>total_pending = 3, filtered_count = 2, shown_count = 1,
          events = [event1\<lparr>ID := ''a'', AttemptCount := 1\<rparr>]\<rparr>"
    by simp
  with l t iterationOrder_world3 DeliveryMetrics_world3 queryLimit_one show ?thesis by simp
qed

subsection \<open>Submission\<close>

text \<open>
  C9. Every call of \<open>DeliverEvent\<close> overwrites \<open>CreatedAt\<close> with the clock reading and
  \<open>Status\<close> with Pending, whatever the caller put there, and starts one fan-out. When
  the caller's non-empty id is already a key of the pending map, held by another record,
  the key then leads to the new event: what a lookup finds are the new event's own
  counter and last error; nothing of the previous record is carried over, and that
  record itself is left as it was.
\<close>

theorem DeliverEvent_overwrites:
  "CreatedAt (heap (fst (DeliverEvent now nanos p w)) p) = now \<and>
   Status (heap (fst (DeliverEvent now nanos p w)) p) = DeliveryStatusPending \<and>
   snd (DeliverEvent now nanos p w) = [p] \<and>
   (ID (heap w p) \<noteq> '''' \<and> pendingEvents (dm w) (ID (heap w p)) = Some q \<and> q \<noteq> p \<longrightarrow>
      ID (heap (fst (DeliverEvent now nanos p w)) p) = ID (heap w p) \<and>
      GetEventStatus (dm (fst (DeliverEvent now nanos p w))) (ID (heap w p)) = Some p \<and>
      AttemptCount (heap (fst (DeliverEvent now nanos p w)) p) = AttemptCount (heap w p) \<and>
      LastError (heap (fst (DeliverEvent now nanos p w)) p) = LastError (heap w p) \<and>
      heap (fst (DeliverEvent now nanos p w)) q = heap w q)"
  by (simp add: DeliverEvent_fst GetEventStatus_def assignedID_def)
    (simp add: DeliverEvent_def Let_def)

lemma world4_simps:
  "heap world4 0 = event1\<lparr>AttemptCount := 2\<rparr>"
  "heap world4 (Suc 0) = event1\<lparr>CreatedAt := 77, Status := DeliveryStatusDelivered\<rparr>"
  "pendingEvents (dm world4) = [''evt-1'' \<mapsto> 0]"
  by (simp_all add: world4_def world2_simps)

theorem DeliverEvent_overwrites_witness:
  "ID (heap world4 1) = ''evt-1'' \<and> pendingEvents (dm world4) ''evt-1'' = Some 0 \<and>
   AttemptCount (heap world4 0) = 2 \<and>
   CreatedAt (heap world4 1) = 77 \<and> Status (heap world4 1) = DeliveryStatusDelivered \<and>
   CreatedAt (heap (fst (DeliverEvent 100 101 1 world4)) 1) = 100 \<and>
   Status (heap (fst (DeliverEvent 100 101 1 world4)) 1) = DeliveryStatusPending \<and>
   GetEventStatus (dm (fst (DeliverEvent 100 101 1 world4))) ''evt-1'' = Some 1 \<and>
   AttemptCount (heap (fst (DeliverEvent 100 101 1 world4)) 1) = 0"
proof -
  have h: "ID (heap world4 1) \<noteq> '''' \<and>
        pendingEvents (dm world4) (ID (heap world4 1)) = Some 0 \<and> (0::nat) \<noteq> 1"
    by (simp add: world4_simps event1_simps)
  have v: "ID (heap world4 1) = ''evt-1''" "pendingEvents (dm world4) ''evt-1'' = Some 0"
    "AttemptCount (heap world4 0) = 2" "AttemptCount (heap world4 1) = 0"
    "CreatedAt (heap world4 1) = 77" "Status (heap world4 1) = DeliveryStatusDelivered"
    by (simp_all add: world4_simps event1_simps)
  from DeliverEvent_overwrites [of 100 101 1 world4 0] h have
    "CreatedAt (heap (fst (DeliverEvent 100 101 1 world4)) 1) = 100"
    "Status (heap (fst (DeliverEvent 100 101 1 world4)) 1) = DeliveryStatusPending"
    "GetEventStatus (dm (fst (DeliverEvent 100 101 1 world4))) (ID (heap world4 1)) = Some 1"
    "AttemptCount (heap (fst (DeliverEvent 100 101 1 world4)) 1) = AttemptCount (heap world4 1)"
    by blast+
  with v show ?thesis by simp
qed

subsection \<open>No HTTP client registered\<close>

text \<open>
  C10. When no HTTP client is registered for the user id of the event, the user-webhook
  adapter and the global-webhook adapter return a result with \<open>Success = False\<close> and the
  error text "HTTP client not found for user", respectively "HTTP client not available",
  and make no outbound call. If one of the two channels is enabled the aggregation is a
  failure, and the cycle leaves the world exactly as a cycle does in which a client is
  registered and every call fails with a transport error: one more attempt is counted.
\<close>

theorem no_http_client_is_failure:
  assumes "GetHTTPClient e (UserID event) = None"
  shows
   "deliverToUserWebhook e event url =
      (\<lparr>Channel = ''webhook'', Success = False, Error = ''HTTP client not found for user'',
        Duration = Milliseconds (since e ''webhook''), Timestamp = startAt e ''webhook''\<rparr>, []) \<and>
    deliverToGlobalWebhook e event =
      (\<lparr>Channel = ''global_webhook'', Success = False, Error = ''HTTP client not available'',
        Duration = Milliseconds (since e ''global_webhook''),
        Timestamp = startAt e ''global_webhook''\<rparr>, []) \<and>
    (getUserWebhookUrl e (Token event) \<noteq> '''' \<or> globalWebhook e \<noteq> '''' \<longrightarrow>
       \<not> snd (aggregate e event) \<and>
       \<not> snd (aggregate (e\<lparr>GetHTTPClient := (\<lambda>userID. Some client),
                            send := (\<lambda>req. Some msg)\<rparr>) event) \<and>
       (heap w p = event \<longrightarrow>
          processDelivery e p w =
          processDelivery (e\<lparr>GetHTTPClient := (\<lambda>userID. Some client),
                             send := (\<lambda>req. Some msg)\<rparr>) p w \<and>
          AttemptCount (heap (processDelivery e p w) p) = AttemptCount event + 1))"
proof -
  let ?e' = "e\<lparr>GetHTTPClient := (\<lambda>userID. Some client), send := (\<lambda>req. Some msg)\<rparr>"
  have u: "deliverToUserWebhook e event url' =
      (\<lparr>Channel = ''webhook'', Success = False, Error = ''HTTP client not found for user'',
        Duration = Milliseconds (since e ''webhook''), Timestamp = startAt e ''webhook''\<rparr>, [])"
    for url'
    using assms by (simp add: deliverToUserWebhook_def)
  have g: "deliverToGlobalWebhook e event =
      (\<lparr>Channel = ''global_webhook'', Success = False, Error = ''HTTP client not available'',
        Duration = Milliseconds (since e ''global_webhook''),
        Timestamp = startAt e ''global_webhook''\<rparr>, [])"
    using assms by (simp add: deliverToGlobalWebhook_def)
  have rest: "\<not> snd (aggregate e event) \<and> \<not> snd (aggregate ?e' event) \<and>
       (heap w p = event \<longrightarrow>
          processDelivery e p w = processDelivery ?e' p w \<and>
          AttemptCount (heap (processDelivery e p w) p) = AttemptCount event + 1)"
    if en: "getUserWebhookUrl e (Token event) \<noteq> '''' \<or> globalWebhook e \<noteq> ''''"
  proof -
    have a: "\<not> snd (aggregate e event)"
      using en by (auto simp add: aggregate_snd dispatch_def u g Let_def)
    have u': "\<not> Success (fst (deliverToUserWebhook ?e' event url'))" for url'
      by (simp add: deliverToUserWebhook_def Let_def)
    have g': "\<not> Success (fst (deliverToGlobalWebhook ?e' event))"
      by (simp add: deliverToGlobalWebhook_def Let_def)
    have b: "\<not> snd (aggregate ?e' event)"
      using en u' g' by (auto simp add: aggregate_snd dispatch_def Let_def)
    from a b show ?thesis
      by (auto simp add: processDelivery_def updateStatus_def Let_def)
  qed
  from u g rest show ?thesis by blast
qed

theorem no_http_client_is_failure_witness:
  "GetHTTPClient envNoClient (UserID event1) = None \<and>
   getUserWebhookUrl envNoClient (Token event1) = ''http://hook.example/t1'' \<and>
   map (Error \<circ> fst) (dispatch envNoClient event1) =
     [''HTTP client not found for user'', ''HTTP client not available''] \<and>
   map snd (dispatch envNoClient event1) = [[], []] \<and>
   \<not> snd (aggregate envNoClient event1) \<and>
   AttemptCount (heap (processDelivery envNoClient 0 world1) 0) = 1"
proof -
  have n: "GetHTTPClient envNoClient (UserID event1) = None"
    by (simp add: envNoClient_def)
  have en: "getUserWebhookUrl envNoClient (Token event1) \<noteq> '''' \<or>
            globalWebhook envNoClient \<noteq> ''''"
    by (simp add: envNoClient_def)
  have url: "getUserWebhookUrl envNoClient (Token event1) = ''http://hook.example/t1''"
    "globalWebhook envNoClient \<noteq> ''''" "\<not> rabbitEnabled envNoClient"
    by (simp_all add: envNoClient_def envNone_def)
  note t = no_http_client_is_failure [OF n, where client = 0 and msg = "''refused''" and w = world1 and p = 0]
  from t [where url = "''http://hook.example/t1''"] have
    d: "map (Error \<circ> fst) (dispatch envNoClient event1) =
     [''HTTP client not found for user'', ''HTTP client not available'']"
    "map snd (dispatch envNoClient event1) = [[], []]"
    by (simp_all add: dispatch_def url)
  have w: "heap world1 0 = event1" by (simp add: world1_simps)
  from t [where url = "''''"] en w have
    "\<not> snd (aggregate envNoClient event1)"
    "AttemptCount (heap (processDelivery envNoClient 0 world1) 0) = AttemptCount event1 + 1"
    by blast+
  with n url d show ?thesis by (simp add: event1_simps)
qed

subsection \<open>Terminal events leave the map\<close>

lemma status_distinct:
  "DeliveryStatusPending \<noteq> DeliveryStatusDelivered"
  "DeliveryStatusPending \<noteq> DeliveryStatusFailed"
  "DeliveryStatusDelivered \<noteq> DeliveryStatusFailed"
  by (simp_all add: DeliveryStatusPending_def DeliveryStatusDelivered_def
      DeliveryStatusFailed_def)

lemma processDelivery_absent:
  "pendingEvents (dm w) i = None \<Longrightarrow> pendingEvents (dm (processDelivery e p w)) i = None"
  by (auto simp add: processDelivery_def updateStatus_def Let_def)

text \<open>Only \<open>DeliverEvent\<close> adds a key to the map.\<close>

lemma state_step:
  "state (step (Submit p event now nanos) s) =
     fst (DeliverEvent now nanos p ((state s)\<lparr>heap := (heap (state s))(p := event)\<rparr>))"
  "dm (state (step (Tick clock ks) s)) = dm (state s)"
  "dm (state (step (Force clock ks eventID) s)) = dm (state s)"
  "state (step (Finish i e) s) =
     (if i < length (started s) then processDelivery e (started s ! i) (state s)
      else state s)"
  by (simp_all add: split_beta Let_def)

lemma step_absent:
  "pendingEvents (dm (state s)) i = None \<Longrightarrow> \<not> storesUnder a i \<Longrightarrow>
   pendingEvents (dm (state (step a s))) i = None"
proof (cases a)
  case (Submit p event now nanos)
  assume "pendingEvents (dm (state s)) i = None" "\<not> storesUnder a i"
  with Submit show ?thesis
    by (simp only: state_step DeliverEvent_fst) simp
next
  case (Tick clock ks)
  assume "pendingEvents (dm (state s)) i = None"
  with Tick show ?thesis by (simp only: state_step)
next
  case (Force clock ks eventID)
  assume "pendingEvents (dm (state s)) i = None"
  with Force show ?thesis by (simp only: state_step)
next
  case (Finish n e)
  assume "pendingEvents (dm (state s)) i = None"
  with Finish show ?thesis by (simp only: state_step) (simp add: processDelivery_absent)
qed

lemma run_absent:
  "pendingEvents (dm (state s)) i = None \<Longrightarrow> \<forall>a \<in> set acts. \<not> storesUnder a i \<Longrightarrow>
   pendingEvents (dm (state (run acts s))) i = None"
  unfolding run_def
  by (induction acts arbitrary: s) (simp_all add: step_absent)

lemma terminal_removed:
  assumes "Status (heap w p) = DeliveryStatusPending"
    and "Status (heap (processDelivery e p w) p) = DeliveryStatusDelivered \<or>
         Status (heap (processDelivery e p w) p) = DeliveryStatusFailed"
  shows "pendingEvents (dm (processDelivery e p w)) (ID (heap w p)) = None"
  using assms status_distinct
  by (auto simp add: processDelivery_def updateStatus_def Let_def split: if_splits)

text \<open>
  C6, as the code has it. When a cycle takes a Pending event to Delivered or Failed, its
  id is removed from the pending map in the same step. From then on, through any further
  steps of the manager (fan-outs still under way, sweeps, forced retries, submissions of
  events under other ids), \<open>GetEventStatus\<close> for that id finds nothing and the
  single-event endpoint answers 404, until a producer submits a new event under the same
  id.
\<close>

theorem terminal_not_found:
  assumes "Status (heap w p) = DeliveryStatusPending"
    and "Status (heap (processDelivery e p w) p) = DeliveryStatusDelivered \<or>
         Status (heap (processDelivery e p w) p) = DeliveryStatusFailed"
    and "\<forall>a \<in> set acts. \<not> storesUnder a (ID (heap w p))"
    and "ID (heap w p) \<noteq> ''''"
  shows "GetEventStatus (dm (processDelivery e p w)) (ID (heap w p)) = None \<and>
         GetEventStatus
           (dm (state (run acts \<lparr>state = processDelivery e p w, started = fl\<rparr>)))
           (ID (heap w p)) = None \<and>
         EventStatus marshalErr (ID (heap w p))
           (heap (state (run acts \<lparr>state = processDelivery e p w, started = fl\<rparr>)))
           (Some (dm (state (run acts \<lparr>state = processDelivery e p w, started = fl\<rparr>)))) =
           Respond 404 ''Event not found or already completed''"
proof -
  let ?s = "run acts \<lparr>state = processDelivery e p w, started = fl\<rparr>"
  have r: "pendingEvents (dm (processDelivery e p w)) (ID (heap w p)) = None"
    using assms(1,2) by (rule terminal_removed)
  then have "pendingEvents (dm (state \<lparr>state = processDelivery e p w, started = fl\<rparr>))
               (ID (heap w p)) = None"
    by simp
  then have "pendingEvents (dm (state ?s)) (ID (heap w p)) = None"
    using assms(3) by (rule run_absent)
  then show ?thesis using r assms(4) by (simp add: GetEventStatus_def EventStatus_def)
qed

theorem terminal_not_found_witness:
  "Status (heap world2 0) = DeliveryStatusPending \<and>
   Status (heap (processDelivery envBrokerDown 0 world2) 0) = DeliveryStatusFailed \<and>
   ID (heap world2 0) = ''evt-1'' \<and>
   map (\<lambda>a. storesUnder a ''evt-1'') actionsAfter = [False, False, False, False, False] \<and>
   GetEventStatus
     (dm (state (run actionsAfter
                   \<lparr>state = processDelivery envBrokerDown 0 world2, started = [0]\<rparr>)))
     ''evt-1'' = None \<and>
   EventStatus None ''evt-1''
     (heap (state (run actionsAfter
                     \<lparr>state = processDelivery envBrokerDown 0 world2, started = [0]\<rparr>)))
     (Some (dm (state (run actionsAfter
                     \<lparr>state = processDelivery envBrokerDown 0 world2, started = [0]\<rparr>)))) =
     Respond 404 ''Event not found or already completed''"
proof -
  have 1: "Status (heap world2 0) = DeliveryStatusPending"
    by (simp add: world2_simps event1_simps)
  have f: "Status (heap (processDelivery envBrokerDown 0 world2) 0) = DeliveryStatusFailed"
    using worldFailed_simps(1) by (simp add: worldFailed_def)
  then have 2:
    "Status (heap (processDelivery envBrokerDown 0 world2) 0) = DeliveryStatusDelivered \<or>
     Status (heap (processDelivery envBrokerDown 0 world2) 0) = DeliveryStatusFailed"
    by simp
  have i: "ID (heap world2 0) = ''evt-1''" by (simp add: world2_simps event1_simps)
  have m: "map (\<lambda>a. storesUnder a ''evt-1'') actionsAfter =
             [False, False, False, False, False]"
    by (simp add: actionsAfter_def assignedID_def)
  have 3: "\<forall>a \<in> set actionsAfter. \<not> storesUnder a (ID (heap world2 0))"
    by (simp add: i actionsAfter_def assignedID_def)
  have 4: "ID (heap world2 0) \<noteq> ''''" by (simp add: i)
  from terminal_not_found [OF 1 2 3 4, of "[0]" None] 1 f i m show ?thesis by simp
qed

text \<open>
  The claim as the specification words it, for every later query, fails when a producer
  submits a new event under the id of the evicted one: \<open>DeliverEvent\<close> stores under any id
  the caller gives, the lookup finds the new event and the endpoint writes it.
\<close>

theorem terminal_id_resubmitted:
  "Status (heap world2 0) = DeliveryStatusPending \<and>
   ID (heap world2 0) = ''evt-1'' \<and>
   Status (heap (processDelivery envBrokerDown 0 world2) 0) = DeliveryStatusFailed \<and>
   GetEventStatus (dm (processDelivery envBrokerDown 0 world2)) ''evt-1'' = None \<and>
   GetEventStatus
     (dm (state (run [Submit 1 event1 7 8]
                   \<lparr>state = processDelivery envBrokerDown 0 world2, started = []\<rparr>)))
     ''evt-1'' = Some 1 \<and>
   EventStatus None ''evt-1''
     (heap (state (run [Submit 1 event1 7 8]
                     \<lparr>state = processDelivery envBrokerDown 0 world2, started = []\<rparr>)))
     (Some (dm (state (run [Submit 1 event1 7 8]
                     \<lparr>state = processDelivery envBrokerDown 0 world2, started = []\<rparr>)))) =
     WriteEvent (event1\<lparr>CreatedAt := 7\<rparr>)"
proof -
  have w: "processDelivery envBrokerDown 0 world2 = worldFailed" by (simp add: worldFailed_def)
  have a: "assignedID event1 8 = ''evt-1''" by (simp add: assignedID_def event1_simps)
  have e: "event1\<lparr>CreatedAt := 7, Status := DeliveryStatusPending, ID := ''evt-1''\<rparr> =
           event1\<lparr>CreatedAt := 7\<rparr>"
    by (simp add: event1_def)
  show ?thesis
    unfolding w
    by (simp add: run_def split_beta Let_def DeliverEvent_fst a e worldFailed_simps
        world2_simps event1_simps GetEventStatus_def EventStatus_def)
qed

end
